theory Spec2Isabelle
  imports Main
begin

section \<open>Python values, dictionaries and errors\<close>

text \<open>
  The exceptions the modelled code can raise. \<open>InvalidData\<close>, \<open>Forbidden\<close> and
  \<open>HTTPException\<close> are the library's own (discord/errors.py); the others are Python's
  built-in ones.
\<close>

datatype error =
    KeyError string
  | AttributeError string
  | AssertionError
  | IndexError
  | InvalidData string
  | Forbidden
  | HTTPException

text \<open>
  A Python \<open>dict\<close> keeps its keys in insertion order: assigning to a key that is
  already there replaces the value in place, a new key goes to the end.
\<close>

type_synonym ('k, 'v) dict = "('k \<times> 'v) list"

fun dict_get :: "('k, 'v) dict \<Rightarrow> 'k \<Rightarrow> 'v option" where
  "dict_get [] k = None"
| "dict_get ((k', v) # kvs) k = (if k' = k then Some v else dict_get kvs k)"

fun dict_set :: "('k, 'v) dict \<Rightarrow> 'k \<Rightarrow> 'v \<Rightarrow> ('k, 'v) dict" where
  "dict_set [] k v = [(k, v)]"
| "dict_set ((k', v') # kvs) k v =
     (if k' = k then (k, v) # kvs else (k', v') # dict_set kvs k v)"

fun dict_del :: "('k, 'v) dict \<Rightarrow> 'k \<Rightarrow> ('k, 'v) dict" where
  "dict_del [] k = []"
| "dict_del ((k', v) # kvs) k = (if k' = k then dict_del kvs k else (k', v) # dict_del kvs k)"

text \<open>\<open>d.pop(k, None)\<close>: the value stored under \<open>k\<close> (or \<open>None\<close>) and the dict without it.\<close>

definition dict_pop :: "('k, 'v) dict \<Rightarrow> 'k \<Rightarrow> 'v option \<times> ('k, 'v) dict" where
  "dict_pop d k = (dict_get d k, dict_del d k)"

definition dict_values :: "('k, 'v) dict \<Rightarrow> 'v list" where
  "dict_values d = map snd d"

section \<open>The thread and its members (discord/threads.py)\<close>

text \<open>
  An aware \<open>datetime\<close> is modelled by the instant it denotes, so that equality of two
  values is equality of instants.
\<close>

type_synonym datetime = int

text \<open>
  The connection state, as far as threads.py reads it: \<open>state.self_id\<close> (optional)
  and \<open>state.user.id\<close>.
\<close>

record connection_state =
  self_id :: "int option"
  user_id :: int

text \<open>
  The guild, as far as threads.py reads it: its id, the ids of the channels
  \<open>guild.get_channel\<close> finds and the ids of the members \<open>guild.get_member\<close> finds.
\<close>

record guild_cache =
  guild_id :: int
  channels :: "int list"
  cached_members :: "int list"

text \<open>Class \<open>ThreadMember\<close>: the slots \<open>id\<close>, \<open>thread_id\<close>, \<open>joined_at\<close>, \<open>flags\<close>.\<close>

record thread_member =
  member_id :: int
  thread_id :: int
  joined_at :: "datetime option"
  flags :: "int option"

text \<open>A value of an enum class built by \<open>EnumMeta\<close>: the named tuple \<open>(name, value)\<close>.\<close>

datatype pyval = PNone | PBool bool | PInt int | PStr string

record enum_value =
  ev_name :: string
  ev_value :: pyval

text \<open>Class \<open>Thread\<close>: one field per entry of \<open>__slots__\<close>, in the order of the source.\<close>

record thread =
  name :: string
  id_t :: int
  guild :: guild_cache
  type_t :: enum_value
  state_t :: connection_state
  members_t :: "(int, thread_member) dict"
  owner_id :: int
  parent_id :: int
  last_message_id :: "int option"
  message_count :: int
  member_count :: int
  slowmode_delay :: int
  locked :: bool
  archived :: bool
  invitable :: bool
  auto_archive_duration :: int
  archive_timestamp :: "datetime option"
  member_ids :: "int list"
  created_at_t :: "datetime option"

text \<open>Property \<open>Thread.members\<close>: \<open>list(self._members.values())\<close>.\<close>

definition members :: "thread \<Rightarrow> thread_member list" where
  "members t = dict_values (members_t t)"

text \<open>Property \<open>Thread.me\<close>: \<open>self._members.get(self._state.user.id)\<close>.\<close>

definition me :: "thread \<Rightarrow> thread_member option" where
  "me t = dict_get (members_t t) (user_id (state_t t))"

text \<open>The setter of \<open>Thread.me\<close>: \<open>self._members[member.id] = member\<close>.\<close>

definition me_setter :: "thread \<Rightarrow> thread_member \<Rightarrow> thread" where
  "me_setter t m = t\<lparr>members_t := dict_set (members_t t) (member_id m) m\<rparr>"

text \<open>
  \<open>Thread._add_member\<close>: the member is stored unless its id is \<open>state.self_id\<close>.
\<close>

definition add_member :: "thread \<Rightarrow> thread_member \<Rightarrow> thread" where
  "add_member t m =
     (if Some (member_id m) \<noteq> self_id (state_t t)
      then t\<lparr>members_t := dict_set (members_t t) (member_id m) m\<rparr>
      else t)"

text \<open>\<open>Thread._pop_member\<close>: \<open>self._members.pop(member_id, None)\<close>.\<close>

definition pop_member :: "thread \<Rightarrow> int \<Rightarrow> thread_member option \<times> thread" where
  "pop_member t uid =
     (case dict_pop (members_t t) uid of (r, d) \<Rightarrow> (r, t\<lparr>members_t := d\<rparr>))"

text \<open>
  The operations that touch a thread's member dict, and a run of them in order.
  \<open>AddMember\<close> and \<open>PopMember\<close> are the generic paths, \<open>SetMe\<close> is the setter of
  \<open>Thread.me\<close>.
\<close>

datatype member_op = AddMember thread_member | PopMember int | SetMe thread_member

fun is_generic :: "member_op \<Rightarrow> bool" where
  "is_generic (AddMember m) = True"
| "is_generic (PopMember u) = True"
| "is_generic (SetMe m) = False"

fun apply_member_op :: "thread \<Rightarrow> member_op \<Rightarrow> thread" where
  "apply_member_op t (AddMember m) = add_member t m"
| "apply_member_op t (PopMember u) = snd (pop_member t u)"
| "apply_member_op t (SetMe m) = me_setter t m"

fun run_member_ops :: "thread \<Rightarrow> member_op list \<Rightarrow> thread" where
  "run_member_ops t [] = t"
| "run_member_ops t (x # xs) = run_member_ops (apply_member_op t x) xs"

section \<open>Concrete values used by the closed theorems\<close>

definition guild0 :: guild_cache where
  "guild0 = \<lparr>guild_id = 900, channels = [10], cached_members = [7]\<rparr>"

definition state0 :: connection_state where
  "state0 = \<lparr>self_id = Some 7, user_id = 7\<rparr>"

definition member0 :: "int \<Rightarrow> thread_member" where
  "member0 u = \<lparr>member_id = u, thread_id = 1, joined_at = None, flags = None\<rparr>"

definition thread0 :: thread where
  "thread0 = \<lparr>name = ''general'', id_t = 1, guild = guild0,
     type_t = \<lparr>ev_name = ''public_thread'', ev_value = PInt 11\<rparr>,
     state_t = state0, members_t = [(42, member0 42)],
     owner_id = 5, parent_id = 10, last_message_id = None,
     message_count = 3, member_count = 2, slowmode_delay = 5,
     locked = True, archived = True, invitable = False,
     auto_archive_duration = 60, archive_timestamp = Some 1000,
     member_ids = [42], created_at_t = Some 990\<rparr>"

section \<open>Updating a thread from a payload (\<open>Thread._update\<close>)\<close>

text \<open>
  The \<open>thread_metadata\<close> object of a payload, as \<open>_unroll_metadata\<close> reads it: the keys
  it indexes (\<open>data['archived']\<close>, \<open>data['auto_archive_duration']\<close>,
  \<open>data['archive_timestamp']\<close>) are always there, the keys it reads with \<open>data.get\<close> are
  optional (\<open>None\<close> is an absent key).
\<close>

record thread_metadata =
  md_archived :: bool
  md_auto_archive_duration :: int
  md_archive_timestamp :: string
  md_creation_timestamp :: "string option"
  md_locked :: "bool option"
  md_invitable :: "bool option"

text \<open>
  The payload \<open>_update\<close> receives. Every key is read with \<open>data.get\<close>, so every field is
  optional; \<open>None\<close> is an absent key (for the keys compared with \<open>is not None\<close>, also a
  JSON null). \<open>up_last_message_id\<close> is what \<open>_get_as_snowflake(data, 'last_message_id')\<close>
  returns.
\<close>

record update_payload =
  up_rate_limit_per_user :: "int option"
  up_thread_metadata :: "thread_metadata option"
  up_name :: "string option"
  up_last_message_id :: "int option"
  up_message_count :: "int option"
  up_member_count :: "int option"
  up_member_ids_preview :: "int list option"

text \<open>
  \<open>utils.parse_time\<close> is not part of the sources at hand: it is the parameter \<open>pt\<close>, from
  an optional timestamp string to an optional \<open>datetime\<close>.
\<close>

type_synonym parse_time = "string option \<Rightarrow> datetime option"

text \<open>\<open>dict.get(key, default)\<close> on an optional field.\<close>

definition get_default :: "'a option \<Rightarrow> 'a \<Rightarrow> 'a" where
  "get_default v dflt = (case v of None \<Rightarrow> dflt | Some x \<Rightarrow> x)"

text \<open>\<open>Thread._unroll_metadata\<close>, assignment by assignment.\<close>

definition unroll_metadata :: "parse_time \<Rightarrow> thread \<Rightarrow> thread_metadata \<Rightarrow> thread" where
  "unroll_metadata pt t md =
     t\<lparr>archived := md_archived md,
       auto_archive_duration := md_auto_archive_duration md,
       archive_timestamp := pt (Some (md_archive_timestamp md)),
       created_at_t := pt (md_creation_timestamp md),
       locked := get_default (md_locked md) False,
       invitable := get_default (md_invitable md) True\<rparr>"

text \<open>\<open>Thread.__slots__\<close>, with the names of the source.\<close>

definition slots :: "string list" where
  "slots = [''name'', ''id'', ''guild'', ''_type'', ''_state'', ''_members'', ''owner_id'',
     ''parent_id'', ''last_message_id'', ''message_count'', ''member_count'',
     ''slowmode_delay'', ''locked'', ''archived'', ''invitable'', ''auto_archive_duration'',
     ''archive_timestamp'', ''_member_ids'', ''_created_at'']"

text \<open>
  \<open>starts_with s p\<close> is \<open>s.startswith(p)\<close>; \<open>str_in y x\<close> is Python's \<open>y in x\<close> on strings:
  \<open>y\<close> occurs in \<open>x\<close> as a contiguous substring.
\<close>

fun starts_with :: "string \<Rightarrow> string \<Rightarrow> bool" where
  "starts_with s [] = True"
| "starts_with [] (p # ps) = False"
| "starts_with (c # cs) (p # ps) = (c = p \<and> starts_with cs ps)"

fun str_in :: "string \<Rightarrow> string \<Rightarrow> bool" where
  "str_in y [] = (y = [])"
| "str_in y (c # cs) = (starts_with (c # cs) y \<or> str_in y cs)"

text \<open>
  The attributes \<open>_update\<close> compares:
  \<open>[x for x in self.__slots__ if not any(y in x for y in ('member', 'guild', 'state', 'count'))]\<close>.
\<close>

definition attrs :: "string list" where
  "attrs = filter (\<lambda>x. \<not> list_ex (\<lambda>y. str_in y x) [''member'', ''guild'', ''state'', ''count''])
     slots"

text \<open>The value of a slot; \<open>getattr\<close> gives \<open>None\<close> for a name that is not a slot.\<close>

datatype attr =
    AStr string
  | AInt int
  | ABool bool
  | AOptInt "int option"
  | AIntList "int list"
  | ATime "datetime option"
  | AEnum enum_value
  | AGuild guild_cache
  | AState connection_state
  | AMembers "(int, thread_member) dict"

definition getattr :: "thread \<Rightarrow> string \<Rightarrow> attr option" where
  "getattr t a =
     (if a = ''name'' then Some (AStr (name t))
      else if a = ''id'' then Some (AInt (id_t t))
      else if a = ''guild'' then Some (AGuild (guild t))
      else if a = ''_type'' then Some (AEnum (type_t t))
      else if a = ''_state'' then Some (AState (state_t t))
      else if a = ''_members'' then Some (AMembers (members_t t))
      else if a = ''owner_id'' then Some (AInt (owner_id t))
      else if a = ''parent_id'' then Some (AInt (parent_id t))
      else if a = ''last_message_id'' then Some (AOptInt (last_message_id t))
      else if a = ''message_count'' then Some (AInt (message_count t))
      else if a = ''member_count'' then Some (AInt (member_count t))
      else if a = ''slowmode_delay'' then Some (AInt (slowmode_delay t))
      else if a = ''locked'' then Some (ABool (locked t))
      else if a = ''archived'' then Some (ABool (archived t))
      else if a = ''invitable'' then Some (ABool (invitable t))
      else if a = ''auto_archive_duration'' then Some (AInt (auto_archive_duration t))
      else if a = ''archive_timestamp'' then Some (ATime (archive_timestamp t))
      else if a = ''_member_ids'' then Some (AIntList (member_ids t))
      else if a = ''_created_at'' then Some (ATime (created_at_t t))
      else None)"

text \<open>
  The mutation part of \<open>Thread._update\<close> (lines 192 to 205 of the source), in the order
  of the source.
\<close>

definition update_fields :: "parse_time \<Rightarrow> thread \<Rightarrow> update_payload \<Rightarrow> thread" where
  "update_fields pt t d =
     (let t1 = t\<lparr>slowmode_delay := get_default (up_rate_limit_per_user d) 0\<rparr>;
          t2 = (case up_thread_metadata d of None \<Rightarrow> t1 | Some meta \<Rightarrow> unroll_metadata pt t1 meta);
          t3 = (case up_name d of None \<Rightarrow> t2 | Some n \<Rightarrow> t2\<lparr>name := n\<rparr>);
          t4 = (case up_last_message_id d of None \<Rightarrow> t3 | Some i \<Rightarrow> t3\<lparr>last_message_id := Some i\<rparr>);
          t5 = (case up_message_count d of None \<Rightarrow> t4 | Some c \<Rightarrow> t4\<lparr>message_count := c\<rparr>);
          t6 = (case up_member_count d of None \<Rightarrow> t5 | Some c \<Rightarrow> t5\<lparr>member_count := c\<rparr>);
          t7 = (case up_member_ids_preview d of None \<Rightarrow> t6 | Some ids \<Rightarrow> t6\<lparr>member_ids := ids\<rparr>)
      in t7)"

text \<open>
  \<open>Thread._update\<close>: the thread after the update and the value returned, which is the
  copy taken before the update when some compared attribute differs, and \<open>None\<close>
  otherwise.
\<close>

definition update :: "parse_time \<Rightarrow> thread \<Rightarrow> update_payload \<Rightarrow> thread \<times> thread option" where
  "update pt t d =
     (let old = t;
          new = update_fields pt t d
      in (new, if list_ex (\<lambda>a. getattr new a \<noteq> getattr old a) attrs then Some old else None))"

text \<open>A stand-in for \<open>parse_time\<close> in the closed theorems: no string, or an empty one, is no time.\<close>

definition parse_time0 :: parse_time where
  "parse_time0 s = (case s of None \<Rightarrow> None | Some x \<Rightarrow> if x = [] then None else Some (int (length x)))"

definition empty_payload :: update_payload where
  "empty_payload = \<lparr>up_rate_limit_per_user = None, up_thread_metadata = None, up_name = None,
     up_last_message_id = None, up_message_count = None, up_member_count = None,
     up_member_ids_preview = None\<rparr>"

definition metadata0 :: thread_metadata where
  "metadata0 = \<lparr>md_archived = True, md_auto_archive_duration = 60,
     md_archive_timestamp = ''2022-01-09T00:00:00+00:00'', md_creation_timestamp = None,
     md_locked = None, md_invitable = None\<rparr>"

definition counters_payload :: update_payload where
  "counters_payload = \<lparr>up_rate_limit_per_user = Some 5, up_thread_metadata = None,
     up_name = None, up_last_message_id = None, up_message_count = Some 9,
     up_member_count = Some 4, up_member_ids_preview = Some [42, 43]\<rparr>"

definition rename_payload :: update_payload where
  "rename_payload = \<lparr>up_rate_limit_per_user = Some 5, up_thread_metadata = Some metadata0,
     up_name = Some ''renamed'', up_last_message_id = Some 77, up_message_count = None,
     up_member_count = None, up_member_ids_preview = None\<rparr>"

section \<open>Enum classes (discord/enums.py)\<close>

text \<open>
  Python compares and hashes \<open>True\<close> like \<open>1\<close> and \<open>False\<close> like \<open>0\<close>, so a \<open>dict\<close> finds a
  key of one kind under the other. \<open>py_eq\<close> is \<open>==\<close> on the values modelled here, and the
  three functions below are \<open>d.get(k)\<close>, \<open>d[k]\<close> (which raises \<open>KeyError\<close>) and \<open>d[k] = v\<close> for
  a dict with such keys; an assignment to a key that is there keeps the key object.
\<close>

fun py_key :: "pyval \<Rightarrow> pyval" where
  "py_key (PBool b) = PInt (if b then 1 else 0)"
| "py_key v = v"

definition py_eq :: "pyval \<Rightarrow> pyval \<Rightarrow> bool" where
  "py_eq a b = (py_key a = py_key b)"

fun pydict_get :: "(pyval, 'v) dict \<Rightarrow> pyval \<Rightarrow> 'v option" where
  "pydict_get [] k = None"
| "pydict_get ((k', v) # kvs) k = (if py_eq k' k then Some v else pydict_get kvs k)"

fun pydict_set :: "(pyval, 'v) dict \<Rightarrow> pyval \<Rightarrow> 'v \<Rightarrow> (pyval, 'v) dict" where
  "pydict_set [] k v = [(k, v)]"
| "pydict_set ((k', v') # kvs) k v =
     (if py_eq k' k then (k', v) # kvs else (k', v') # pydict_set kvs k v)"

text \<open>\<open>str(val)\<close>, as the f-string \<open>f'unknown_{val}'\<close> formats a value.\<close>

fun digit_char :: "nat \<Rightarrow> char" where
  "digit_char n = (''0123456789'' ! (n mod 10))"

fun str_nat :: "nat \<Rightarrow> string" where
  "str_nat n = (if n < 10 then [digit_char n] else str_nat (n div 10) @ [digit_char n])"

definition str_int :: "int \<Rightarrow> string" where
  "str_int i = (if i < 0 then CHR ''-'' # str_nat (nat (- i)) else str_nat (nat i))"

fun py_str :: "pyval \<Rightarrow> string" where
  "py_str PNone = ''None''"
| "py_str (PBool b) = (if b then ''True'' else ''False'')"
| "py_str (PInt i) = str_int i"
| "py_str (PStr s) = s"

text \<open>
  An enum class, as \<open>EnumMeta.__new__\<close> leaves it: \<open>_enum_value_map_\<close>, \<open>_enum_member_map_\<close>
  and \<open>_enum_member_names_\<close>.
\<close>

record enum_class =
  enum_value_map :: "(pyval, enum_value) dict"
  enum_member_map :: "(string, enum_value) dict"
  enum_member_names :: "string list"

text \<open>
  The loop of \<open>EnumMeta.__new__\<close> over the attributes of the class body, which are here the
  assignments \<open>key = value\<close> of plain values (a descriptor or a classmethod is no such
  value). A key that starts with an underscore is skipped; \<open>key[0]\<close> of an empty key raises
  \<open>IndexError\<close>. A value that is already in the value map makes the key an alias of the
  member that has it.
\<close>

fun enum_members :: "(string \<times> pyval) list \<Rightarrow> enum_class \<Rightarrow> error + enum_class" where
  "enum_members [] c = Inr c"
| "enum_members ((key, val) # rest) c =
     (case key of
        [] \<Rightarrow> Inl IndexError
      | k0 # _ \<Rightarrow>
          if k0 = CHR ''_'' then enum_members rest c
          else (case pydict_get (enum_value_map c) val of
                  Some new_value \<Rightarrow>
                    enum_members rest
                      (c\<lparr>enum_member_map := dict_set (enum_member_map c) key new_value\<rparr>)
                | None \<Rightarrow>
                    enum_members rest
                      (c\<lparr>enum_value_map :=
                           pydict_set (enum_value_map c) val \<lparr>ev_name = key, ev_value = val\<rparr>,
                         enum_member_names := enum_member_names c @ [key],
                         enum_member_map :=
                           dict_set (enum_member_map c) key \<lparr>ev_name = key, ev_value = val\<rparr>\<rparr>)))"

definition EnumMeta_new :: "(string \<times> pyval) list \<Rightarrow> error + enum_class" where
  "EnumMeta_new attrs_of_body =
     enum_members attrs_of_body
       \<lparr>enum_value_map = [], enum_member_map = [], enum_member_names = []\<rparr>"

text \<open>\<open>create_unknown_value\<close>: the value class applied to \<open>unknown_<val>\<close> and \<open>val\<close>.\<close>

definition create_unknown_value :: "enum_class \<Rightarrow> pyval \<Rightarrow> enum_value" where
  "create_unknown_value cls val = \<lparr>ev_name = ''unknown_'' @ py_str val, ev_value = val\<rparr>"

text \<open>\<open>cls._enum_value_map_[val]\<close>, which raises \<open>KeyError\<close> for a value that is no key.\<close>

definition value_map_index :: "enum_class \<Rightarrow> pyval \<Rightarrow> error + enum_value" where
  "value_map_index cls val =
     (case pydict_get (enum_value_map cls) val of
        None \<Rightarrow> Inl (KeyError (py_str val))
      | Some m \<Rightarrow> Inr m)"

text \<open>\<open>try_enum\<close>: the lookup, and the unknown value when the lookup raises.\<close>

definition try_enum :: "enum_class \<Rightarrow> pyval \<Rightarrow> enum_value" where
  "try_enum cls val =
     (case value_map_index cls val of
        Inr m \<Rightarrow> m
      | Inl e \<Rightarrow> create_unknown_value cls val)"

text \<open>The body of class \<open>ChannelType\<close>.\<close>

definition ChannelType_body :: "(string \<times> pyval) list" where
  "ChannelType_body = [(''text'', PInt 0), (''private'', PInt 1), (''voice'', PInt 2),
     (''group'', PInt 3), (''category'', PInt 4), (''news'', PInt 5), (''store'', PInt 6),
     (''news_thread'', PInt 10), (''public_thread'', PInt 11), (''private_thread'', PInt 12),
     (''stage_voice'', PInt 13)]"

text \<open>
  The body of class \<open>RPCApplicationState\<close>, with the \<open>__module__\<close> entry every class
  body has: the keys \<open>disabled\<close> and \<open>none\<close> have the same value.
\<close>

definition RPCApplicationState_body :: "(string \<times> pyval) list" where
  "RPCApplicationState_body = [(''__module__'', PStr ''discord.enums''), (''disabled'', PInt 0),
     (''none'', PInt 0), (''unsubmitted'', PInt 1), (''submitted'', PInt 2),
     (''approved'', PInt 3), (''rejected'', PInt 4)]"

text \<open>
  An entry \<open>key = value\<close> of a class body declares a member for \<open>val\<close> when the key does
  not start with an underscore and the value equals \<open>val\<close>.
\<close>

definition declares :: "pyval \<Rightarrow> string \<times> pyval \<Rightarrow> bool" where
  "declares val kv = (\<not> starts_with (fst kv) ''_'' \<and> py_eq (snd kv) val)"

text \<open>The classes \<open>ChannelType\<close> and \<open>RPCApplicationState\<close>, built when the module is loaded.\<close>

definition ChannelType :: enum_class where
  "ChannelType = projr (EnumMeta_new ChannelType_body)"

definition RPCApplicationState :: enum_class where
  "RPCApplicationState = projr (EnumMeta_new RPCApplicationState_body)"

section \<open>Facts about dictionaries\<close>

lemma dict_del_absent: "dict_get d k = None \<Longrightarrow> dict_del d k = d"
  by (induction d) (auto split: if_splits)

lemma dict_get_del_same: "dict_get (dict_del d k) k = None"
  by (induction d) auto

lemma dict_get_del_other: "k' \<noteq> k \<Longrightarrow> dict_get (dict_del d k) k' = dict_get d k'"
  by (induction d) auto

lemma dict_get_set_same: "dict_get (dict_set d k v) k = Some v"
  by (induction d) auto

lemma dict_get_set_other: "k' \<noteq> k \<Longrightarrow> dict_get (dict_set d k v) k' = dict_get d k'"
  by (induction d) auto

section \<open>Member removal\<close>

text \<open>
  C8. \<open>_pop_member\<close> raises nothing. For a user id that is not a key of the member dict
  it returns \<open>None\<close> and leaves the thread, and so the member dict, as it was; for a
  user id that is a key it returns the record stored under it, which is then no longer
  in the dict, and every other entry stays.
\<close>

theorem pop_member_idempotent_removal:
  "(dict_get (members_t t) uid = None \<longrightarrow> pop_member t uid = (None, t)) \<and>
   (\<forall>m. dict_get (members_t t) uid = Some m \<longrightarrow>
        fst (pop_member t uid) = Some m \<and>
        dict_get (members_t (snd (pop_member t uid))) uid = None \<and>
        (\<forall>u. u \<noteq> uid \<longrightarrow>
           dict_get (members_t (snd (pop_member t uid))) u = dict_get (members_t t) u))"
  by (simp add: pop_member_def dict_pop_def dict_del_absent dict_get_del_same
      dict_get_del_other)

theorem pop_member_idempotent_removal_witness:
  "dict_get (members_t thread0) 43 = None \<and> pop_member thread0 43 = (None, thread0) \<and>
   dict_get (members_t thread0) 42 = Some (member0 42) \<and>
   fst (pop_member thread0 42) = Some (member0 42) \<and>
   dict_get (members_t (snd (pop_member thread0 42))) 42 = None"
  using pop_member_idempotent_removal [of thread0 43]
    pop_member_idempotent_removal [of thread0 42]
  by (simp add: thread0_def)

section \<open>The local user's own membership record\<close>

lemma apply_member_op_state: "state_t (apply_member_op t x) = state_t t"
  by (cases x) (simp_all add: add_member_def pop_member_def me_setter_def split: prod.splits)

lemma generic_op_keeps_self_out:
  assumes "self_id (state_t t) = Some u" and "is_generic x"
    and "dict_get (members_t (apply_member_op t x)) u = Some r"
  shows "dict_get (members_t t) u = Some r"
proof (cases x)
  case (AddMember m)
  show ?thesis
  proof (cases "member_id m = u")
    case True
    with assms AddMember show ?thesis by (simp add: add_member_def)
  next
    case False
    with assms AddMember show ?thesis
      by (simp add: add_member_def dict_get_set_other)
  qed
next
  case (PopMember v)
  show ?thesis
  proof (cases "v = u")
    case True
    with assms PopMember show ?thesis
      by (simp add: pop_member_def dict_pop_def dict_get_del_same)
  next
    case False
    with assms PopMember show ?thesis
      by (simp add: pop_member_def dict_pop_def dict_get_del_other)
  qed
next
  case (SetMe m)
  with assms show ?thesis by simp
qed

lemma generic_run_keeps_self_out:
  "self_id (state_t t) = Some u \<Longrightarrow> \<forall>x \<in> set xs. is_generic x \<Longrightarrow>
   dict_get (members_t (run_member_ops t xs)) u = Some r \<Longrightarrow>
   dict_get (members_t t) u = Some r"
proof (induction xs arbitrary: t)
  case Nil
  then show ?case by simp
next
  case (Cons x xs)
  have "dict_get (members_t (apply_member_op t x)) u = Some r"
    using Cons.IH [of "apply_member_op t x"] Cons.prems
    by (simp add: apply_member_op_state)
  moreover have "is_generic x" using Cons.prems by simp
  ultimately show ?case
    using Cons.prems(1) generic_op_keeps_self_out by blast
qed

text \<open>
  C6. \<open>_add_member\<close> of a record whose id is \<open>state.self_id\<close> leaves the thread, and
  so the member dict, unchanged. Over any run of the generic operations (\<open>_add_member\<close>,
  \<open>_pop_member\<close>) a record found under the local user's id at the end was already there
  at the start: the generic path never puts one in. The setter of \<open>Thread.me\<close> is the
  path that stores the record, under the record's id, whatever that id is.
\<close>

theorem add_member_skips_local_user:
  "(Some (member_id m) = self_id (state_t t) \<longrightarrow> add_member t m = t) \<and>
   (\<forall>u xs r. self_id (state_t t) = Some u \<and> (\<forall>x \<in> set xs. is_generic x) \<and>
        dict_get (members_t (run_member_ops t xs)) u = Some r \<longrightarrow>
        dict_get (members_t t) u = Some r) \<and>
   dict_get (members_t (me_setter t m)) (member_id m) = Some m"
proof (intro conjI allI impI)
  assume "Some (member_id m) = self_id (state_t t)"
  then show "add_member t m = t" by (simp add: add_member_def)
next
  fix u xs r
  assume "self_id (state_t t) = Some u \<and> (\<forall>x \<in> set xs. is_generic x) \<and>
    dict_get (members_t (run_member_ops t xs)) u = Some r"
  then show "dict_get (members_t t) u = Some r"
    using generic_run_keeps_self_out by blast
next
  show "dict_get (members_t (me_setter t m)) (member_id m) = Some m"
    by (simp add: me_setter_def dict_get_set_same)
qed

theorem add_member_skips_local_user_witness:
  "Some (member_id (member0 7)) = self_id (state_t thread0) \<and>
   add_member thread0 (member0 7) = thread0 \<and>
   self_id (state_t (me_setter thread0 (member0 7))) = Some 7 \<and>
   is_generic (AddMember (member0 7)) \<and> is_generic (PopMember 42) \<and>
   is_generic (AddMember (member0 8)) \<and>
   dict_get (members_t (run_member_ops (me_setter thread0 (member0 7))
      [AddMember (member0 7), PopMember 42, AddMember (member0 8)])) 7 = Some (member0 7) \<and>
   dict_get (members_t (me_setter thread0 (member0 7))) 7 = Some (member0 7)"
  using add_member_skips_local_user [of "member0 7" thread0]
    add_member_skips_local_user [of "member0 7" "me_setter thread0 (member0 7)"]
  by (simp add: thread0_def state0_def member0_def me_setter_def add_member_def
      pop_member_def dict_pop_def)

section \<open>The update of a thread\<close>

lemma attrs_eq:
  "attrs = [''name'', ''id'', ''_type'', ''owner_id'', ''parent_id'', ''last_message_id'',
     ''slowmode_delay'', ''locked'', ''archived'', ''invitable'', ''auto_archive_duration'',
     ''archive_timestamp'', ''_created_at'']"
  by (simp add: attrs_def slots_def)

lemma fst_update: "fst (update pt t d) = update_fields pt t d"
  by (simp add: update_def Let_def)

lemma step_name:
  "(case v of None \<Rightarrow> t | Some n \<Rightarrow> t\<lparr>name := n\<rparr>) = t\<lparr>name := get_default v (name t)\<rparr>"
  by (cases v) (simp_all add: get_default_def)

lemma step_last_message_id:
  "(case v of None \<Rightarrow> t | Some i \<Rightarrow> t\<lparr>last_message_id := Some i\<rparr>) =
   t\<lparr>last_message_id := (case v of None \<Rightarrow> last_message_id t | Some i \<Rightarrow> Some i)\<rparr>"
  by (cases v) simp_all

lemma step_message_count:
  "(case v of None \<Rightarrow> t | Some c \<Rightarrow> t\<lparr>message_count := c\<rparr>) =
   t\<lparr>message_count := get_default v (message_count t)\<rparr>"
  by (cases v) (simp_all add: get_default_def)

lemma step_member_count:
  "(case v of None \<Rightarrow> t | Some c \<Rightarrow> t\<lparr>member_count := c\<rparr>) =
   t\<lparr>member_count := get_default v (member_count t)\<rparr>"
  by (cases v) (simp_all add: get_default_def)

lemma step_member_ids:
  "(case v of None \<Rightarrow> t | Some c \<Rightarrow> t\<lparr>member_ids := c\<rparr>) =
   t\<lparr>member_ids := get_default v (member_ids t)\<rparr>"
  by (cases v) (simp_all add: get_default_def)

lemmas update_steps =
  step_name step_last_message_id step_message_count step_member_count step_member_ids

text \<open>The update as one record update, without and with a \<open>thread_metadata\<close> object.\<close>

lemma update_fields_no_meta:
  "up_thread_metadata d = None \<Longrightarrow> update_fields pt t d =
     t\<lparr>slowmode_delay := get_default (up_rate_limit_per_user d) 0,
       name := get_default (up_name d) (name t),
       last_message_id :=
         (case up_last_message_id d of None \<Rightarrow> last_message_id t | Some i \<Rightarrow> Some i),
       message_count := get_default (up_message_count d) (message_count t),
       member_count := get_default (up_member_count d) (member_count t),
       member_ids := get_default (up_member_ids_preview d) (member_ids t)\<rparr>"
  by (simp add: update_fields_def Let_def update_steps cong: option.case_cong)

lemma update_fields_meta:
  "up_thread_metadata d = Some md \<Longrightarrow> update_fields pt t d =
     t\<lparr>slowmode_delay := get_default (up_rate_limit_per_user d) 0,
       archived := md_archived md,
       auto_archive_duration := md_auto_archive_duration md,
       archive_timestamp := pt (Some (md_archive_timestamp md)),
       created_at_t := pt (md_creation_timestamp md),
       locked := get_default (md_locked md) False,
       invitable := get_default (md_invitable md) True,
       name := get_default (up_name d) (name t),
       last_message_id :=
         (case up_last_message_id d of None \<Rightarrow> last_message_id t | Some i \<Rightarrow> Some i),
       message_count := get_default (up_message_count d) (message_count t),
       member_count := get_default (up_member_count d) (member_count t),
       member_ids := get_default (up_member_ids_preview d) (member_ids t)\<rparr>"
  by (simp add: update_fields_def Let_def update_steps unroll_metadata_def
      cong: option.case_cong)

lemma get_default_idem: "get_default v (get_default v x) = get_default v x"
  by (cases v) (simp_all add: get_default_def)

lemma keep_or_replace_idem:
  "(case v of None \<Rightarrow> (case v of None \<Rightarrow> x | Some i \<Rightarrow> Some i) | Some i \<Rightarrow> Some i) =
   (case v of None \<Rightarrow> x | Some i \<Rightarrow> Some i)"
  by (cases v) simp_all

lemma update_fields_idem: "update_fields pt (update_fields pt t d) d = update_fields pt t d"
proof (cases "up_thread_metadata d")
  case None
  show ?thesis
    by (simp add: update_fields_no_meta [OF None] get_default_idem keep_or_replace_idem
        cong: option.case_cong)
next
  case (Some md)
  show ?thesis
    by (simp add: update_fields_meta [OF Some] get_default_idem keep_or_replace_idem
        cong: option.case_cong)
qed

lemma snd_update_None:
  "(snd (update pt t d) = None) =
   (\<forall>a \<in> set attrs. getattr (update_fields pt t d) a = getattr t a)"
  by (simp add: update_def Let_def list_ex_iff)

lemma compared_attrs_eq:
  "(\<forall>a \<in> set attrs. getattr t' a = getattr t a) =
   (name t' = name t \<and> id_t t' = id_t t \<and> type_t t' = type_t t \<and> owner_id t' = owner_id t \<and>
    parent_id t' = parent_id t \<and> last_message_id t' = last_message_id t \<and>
    slowmode_delay t' = slowmode_delay t \<and> locked t' = locked t \<and> archived t' = archived t \<and>
    invitable t' = invitable t \<and> auto_archive_duration t' = auto_archive_duration t \<and>
    archive_timestamp t' = archive_timestamp t \<and> created_at_t t' = created_at_t t)"
  by (simp add: attrs_eq getattr_def)

lemma compared_attrs_slots:
  "(\<forall>a \<in> set attrs. P a) =
   (\<forall>a \<in> set slots. (str_in ''member'' a \<or> str_in ''guild'' a \<or> str_in ''state'' a \<or>
      str_in ''count'' a) \<or> P a)"
  by (auto simp add: attrs_def)

subsection \<open>What an update leaves alone\<close>

text \<open>
  C3, as the claim states it, fails: a payload with no \<open>rate_limit_per_user\<close> key sets the
  slow-mode delay of a thread from 5 to 0, and a \<open>thread_metadata\<close> object with no \<open>locked\<close>
  and no \<open>invitable\<close> key sets \<open>locked\<close> from true to false and \<open>invitable\<close> from false to
  true.
\<close>

theorem update_resets_absent_fields:
  "up_rate_limit_per_user empty_payload = None \<and>
   slowmode_delay thread0 = 5 \<and>
   slowmode_delay (fst (update parse_time0 thread0 empty_payload)) = 0 \<and>
   md_locked metadata0 = None \<and> md_invitable metadata0 = None \<and>
   locked thread0 = True \<and> invitable thread0 = False \<and>
   locked (fst (update parse_time0 thread0
     (empty_payload\<lparr>up_thread_metadata := Some metadata0\<rparr>))) = False \<and>
   invitable (fst (update parse_time0 thread0
     (empty_payload\<lparr>up_thread_metadata := Some metadata0\<rparr>))) = True"
  by (simp add: fst_update update_fields_def Let_def unroll_metadata_def get_default_def
      empty_payload_def metadata0_def thread0_def)

text \<open>
  C3, amended. \<open>_update\<close> never changes \<open>id\<close>, \<open>guild\<close>, \<open>_type\<close>, \<open>_state\<close>, \<open>_members\<close>,
  \<open>owner_id\<close> and \<open>parent_id\<close>. The name, the last message id, the two counters and the
  member-id preview take the payload's value when the payload has one and keep their prior
  value otherwise. The slow-mode delay takes the payload's \<open>rate_limit_per_user\<close>, and 0
  when the key is absent. With no \<open>thread_metadata\<close> object the six metadata fields keep
  their prior values; with one, \<open>archived\<close>, \<open>auto_archive_duration\<close> and
  \<open>archive_timestamp\<close> come from it, \<open>_created_at\<close> is the parsed \<open>creation_timestamp\<close>
  (of no string when absent), \<open>locked\<close> is the object's value or false when absent, and
  \<open>invitable\<close> is the object's value or true when absent.
\<close>

theorem update_frame:
  "id_t (fst (update pt t d)) = id_t t \<and>
   guild (fst (update pt t d)) = guild t \<and>
   type_t (fst (update pt t d)) = type_t t \<and>
   state_t (fst (update pt t d)) = state_t t \<and>
   members_t (fst (update pt t d)) = members_t t \<and>
   owner_id (fst (update pt t d)) = owner_id t \<and>
   parent_id (fst (update pt t d)) = parent_id t \<and>
   name (fst (update pt t d)) = get_default (up_name d) (name t) \<and>
   last_message_id (fst (update pt t d)) =
     (case up_last_message_id d of None \<Rightarrow> last_message_id t | Some i \<Rightarrow> Some i) \<and>
   message_count (fst (update pt t d)) = get_default (up_message_count d) (message_count t) \<and>
   member_count (fst (update pt t d)) = get_default (up_member_count d) (member_count t) \<and>
   member_ids (fst (update pt t d)) = get_default (up_member_ids_preview d) (member_ids t) \<and>
   slowmode_delay (fst (update pt t d)) = get_default (up_rate_limit_per_user d) 0 \<and>
   (case up_thread_metadata d of
      None \<Rightarrow>
        archived (fst (update pt t d)) = archived t \<and>
        auto_archive_duration (fst (update pt t d)) = auto_archive_duration t \<and>
        archive_timestamp (fst (update pt t d)) = archive_timestamp t \<and>
        created_at_t (fst (update pt t d)) = created_at_t t \<and>
        locked (fst (update pt t d)) = locked t \<and>
        invitable (fst (update pt t d)) = invitable t
    | Some md \<Rightarrow>
        archived (fst (update pt t d)) = md_archived md \<and>
        auto_archive_duration (fst (update pt t d)) = md_auto_archive_duration md \<and>
        archive_timestamp (fst (update pt t d)) = pt (Some (md_archive_timestamp md)) \<and>
        created_at_t (fst (update pt t d)) = pt (md_creation_timestamp md) \<and>
        locked (fst (update pt t d)) = get_default (md_locked md) False \<and>
        invitable (fst (update pt t d)) = get_default (md_invitable md) True)"
proof (cases "up_thread_metadata d")
  case None
  show ?thesis
    by (simp add: fst_update update_fields_no_meta [OF None] None)
next
  case (Some md)
  show ?thesis
    by (simp add: fst_update update_fields_meta [OF Some] Some)
qed

theorem update_frame_witness:
  "name (fst (update parse_time0 thread0 counters_payload)) = ''general'' \<and>
   message_count (fst (update parse_time0 thread0 counters_payload)) = 9 \<and>
   locked (fst (update parse_time0 thread0 counters_payload)) = True \<and>
   name (fst (update parse_time0 thread0 rename_payload)) = ''renamed'' \<and>
   message_count (fst (update parse_time0 thread0 rename_payload)) = 3 \<and>
   locked (fst (update parse_time0 thread0 rename_payload)) = False \<and>
   created_at_t (fst (update parse_time0 thread0 rename_payload)) = None"
  using update_frame [of parse_time0 thread0 counters_payload]
    update_frame [of parse_time0 thread0 rename_payload]
  by (simp add: counters_payload_def rename_payload_def thread0_def metadata0_def
      get_default_def parse_time0_def)

subsection \<open>The value \<open>_update\<close> returns\<close>

text \<open>
  C4. \<open>_update\<close> returns \<open>None\<close> exactly when every compared attribute has the value it
  had before, the compared attributes being the slots whose name contains none of
  \<open>member\<close>, \<open>guild\<close>, \<open>state\<close> and \<open>count\<close>. These are the thirteen attributes \<open>name\<close>,
  \<open>id\<close>, \<open>_type\<close>, \<open>owner_id\<close>, \<open>parent_id\<close>, \<open>last_message_id\<close>, \<open>slowmode_delay\<close>,
  \<open>locked\<close>, \<open>archived\<close>, \<open>invitable\<close>, \<open>auto_archive_duration\<close>, \<open>archive_timestamp\<close> and
  \<open>_created_at\<close>. In particular a payload that carries the thread's current slow-mode
  delay and otherwise only the two counters and the member-id preview returns \<open>None\<close>,
  whatever the counters and the preview are.
\<close>

theorem update_returns_None_iff:
  "((snd (update pt t d) = None) =
      (\<forall>a \<in> set slots.
         (str_in ''member'' a \<or> str_in ''guild'' a \<or> str_in ''state'' a \<or> str_in ''count'' a) \<or>
         getattr (fst (update pt t d)) a = getattr t a)) \<and>
   ((snd (update pt t d) = None) =
      (name (fst (update pt t d)) = name t \<and>
       id_t (fst (update pt t d)) = id_t t \<and>
       type_t (fst (update pt t d)) = type_t t \<and>
       owner_id (fst (update pt t d)) = owner_id t \<and>
       parent_id (fst (update pt t d)) = parent_id t \<and>
       last_message_id (fst (update pt t d)) = last_message_id t \<and>
       slowmode_delay (fst (update pt t d)) = slowmode_delay t \<and>
       locked (fst (update pt t d)) = locked t \<and>
       archived (fst (update pt t d)) = archived t \<and>
       invitable (fst (update pt t d)) = invitable t \<and>
       auto_archive_duration (fst (update pt t d)) = auto_archive_duration t \<and>
       archive_timestamp (fst (update pt t d)) = archive_timestamp t \<and>
       created_at_t (fst (update pt t d)) = created_at_t t)) \<and>
   (up_rate_limit_per_user d = Some (slowmode_delay t) \<and> up_thread_metadata d = None \<and>
    up_name d = None \<and> up_last_message_id d = None \<longrightarrow> snd (update pt t d) = None) \<and>
   (snd (update pt t d) = None \<or> snd (update pt t d) = Some t)"
proof (intro conjI impI)
  show "(snd (update pt t d) = None) =
      (\<forall>a \<in> set slots.
         (str_in ''member'' a \<or> str_in ''guild'' a \<or> str_in ''state'' a \<or> str_in ''count'' a) \<or>
         getattr (fst (update pt t d)) a = getattr t a)"
    unfolding snd_update_None fst_update by (rule compared_attrs_slots)
next
  show "(snd (update pt t d) = None) =
      (name (fst (update pt t d)) = name t \<and>
       id_t (fst (update pt t d)) = id_t t \<and>
       type_t (fst (update pt t d)) = type_t t \<and>
       owner_id (fst (update pt t d)) = owner_id t \<and>
       parent_id (fst (update pt t d)) = parent_id t \<and>
       last_message_id (fst (update pt t d)) = last_message_id t \<and>
       slowmode_delay (fst (update pt t d)) = slowmode_delay t \<and>
       locked (fst (update pt t d)) = locked t \<and>
       archived (fst (update pt t d)) = archived t \<and>
       invitable (fst (update pt t d)) = invitable t \<and>
       auto_archive_duration (fst (update pt t d)) = auto_archive_duration t \<and>
       archive_timestamp (fst (update pt t d)) = archive_timestamp t \<and>
       created_at_t (fst (update pt t d)) = created_at_t t)"
    unfolding snd_update_None fst_update by (rule compared_attrs_eq)
next
  assume a: "up_rate_limit_per_user d = Some (slowmode_delay t) \<and> up_thread_metadata d = None \<and>
    up_name d = None \<and> up_last_message_id d = None"
  then have m: "up_thread_metadata d = None" by simp
  show "snd (update pt t d) = None"
    unfolding snd_update_None compared_attrs_eq
    using a by (simp add: update_fields_no_meta [OF m] get_default_def)
next
  show "snd (update pt t d) = None \<or> snd (update pt t d) = Some t"
    by (simp add: update_def Let_def)
qed

theorem update_returns_None_iff_witness:
  "up_rate_limit_per_user counters_payload = Some (slowmode_delay thread0) \<and>
   up_thread_metadata counters_payload = None \<and> up_name counters_payload = None \<and>
   up_last_message_id counters_payload = None \<and>
   snd (update parse_time0 thread0 counters_payload) = None \<and>
   message_count (fst (update parse_time0 thread0 counters_payload)) \<noteq> message_count thread0 \<and>
   name (fst (update parse_time0 thread0 rename_payload)) \<noteq> name thread0 \<and>
   snd (update parse_time0 thread0 rename_payload) = Some thread0"
proof -
  note A = update_returns_None_iff [of parse_time0 thread0 counters_payload]
  note B = update_returns_None_iff [of parse_time0 thread0 rename_payload]
  have n: "name (fst (update parse_time0 thread0 rename_payload)) \<noteq> name thread0"
    by (simp add: fst_update update_fields_def Let_def unroll_metadata_def rename_payload_def
        thread0_def)
  have c: "message_count (fst (update parse_time0 thread0 counters_payload)) \<noteq>
      message_count thread0"
    by (simp add: fst_update update_fields_def Let_def counters_payload_def thread0_def)
  have h: "up_rate_limit_per_user counters_payload = Some (slowmode_delay thread0) \<and>
      up_thread_metadata counters_payload = None \<and> up_name counters_payload = None \<and>
      up_last_message_id counters_payload = None"
    by (simp add: counters_payload_def thread0_def)
  have 1: "snd (update parse_time0 thread0 counters_payload) = None"
    using A [THEN conjunct2, THEN conjunct2, THEN conjunct1] h by (rule mp)
  have 2: "snd (update parse_time0 thread0 rename_payload) \<noteq> None"
    using B [THEN conjunct2, THEN conjunct1] n by simp
  have 3: "snd (update parse_time0 thread0 rename_payload) = Some thread0"
    using B [THEN conjunct2, THEN conjunct2, THEN conjunct2] 2 by simp
  show ?thesis
    using h 1 c n 3 by simp
qed

subsection \<open>Applying a payload twice\<close>

text \<open>
  C7. Applying a payload to a thread, and then the same payload to the resulting thread,
  returns \<open>None\<close> the second time, and the second application leaves the thread as the
  first one made it.
\<close>

theorem update_twice_returns_None:
  "snd (update pt (fst (update pt t d)) d) = None \<and>
   fst (update pt (fst (update pt t d)) d) = fst (update pt t d)"
  by (simp add: snd_update_None fst_update update_fields_idem)

theorem update_twice_returns_None_witness:
  "snd (update parse_time0 thread0 rename_payload) = Some thread0 \<and>
   snd (update parse_time0 (fst (update parse_time0 thread0 rename_payload)) rename_payload) = None"
proof -
  have "name (fst (update parse_time0 thread0 rename_payload)) \<noteq> name thread0"
    by (simp add: fst_update update_fields_def Let_def unroll_metadata_def rename_payload_def
        thread0_def)
  then have "snd (update parse_time0 thread0 rename_payload) = Some thread0"
    unfolding update_def Let_def fst_conv snd_conv list_ex_iff
    by (auto simp add: attrs_eq getattr_def)
  then show ?thesis
    using update_twice_returns_None [of parse_time0 thread0 rename_payload] by simp
qed

section \<open>Enum lookup\<close>

lemma py_eq_refl: "py_eq a a"
  by (simp add: py_eq_def)

lemma pydict_get_cong: "py_eq k k' \<Longrightarrow> pydict_get d k = pydict_get d k'"
  by (induction d) (auto simp add: py_eq_def)

lemma pydict_get_set_new:
  "pydict_get d k = None \<Longrightarrow>
   pydict_get (pydict_set d k v) k' = (if py_eq k k' then Some v else pydict_get d k')"
proof (induction d)
  case Nil
  then show ?case by simp
next
  case (Cons p d)
  obtain k0 v0 where p: "p = (k0, v0)" by (cases p)
  with Cons show ?case
    by (auto simp add: py_eq_def split: if_splits)
qed

lemma enum_members_value_map:
  "enum_members body c = Inr cls \<Longrightarrow>
   pydict_get (enum_value_map cls) val =
     (case pydict_get (enum_value_map c) val of
        Some m \<Rightarrow> Some m
      | None \<Rightarrow> map_option (\<lambda>kv. \<lparr>ev_name = fst kv, ev_value = snd kv\<rparr>) (find (declares val) body))"
proof (induction body arbitrary: c)
  case Nil
  then show ?case by (simp split: option.splits)
next
  case (Cons p body)
  obtain key val0 where p: "p = (key, val0)" by (cases p)
  show ?case
  proof (cases key)
    case Nil
    with Cons.prems p show ?thesis by simp
  next
    case (Cons k0 ks)
    note key = Cons
    show ?thesis
    proof (cases "k0 = CHR ''_''")
      case True
      with Cons.prems p key have e: "enum_members body c = Inr cls" by simp
      have f: "find (declares val) (p # body) = find (declares val) body"
        using True p key by (simp add: declares_def)
      show ?thesis unfolding f by (rule Cons.IH [OF e])
    next
      case False
      note public = False
      show ?thesis
      proof (cases "pydict_get (enum_value_map c) val0")
        case (Some nv)
        with Cons.prems p key public
        have "enum_members body (c\<lparr>enum_member_map := dict_set (enum_member_map c) key nv\<rparr>) = Inr cls"
          by simp
        from Cons.IH [OF this] have ih: "pydict_get (enum_value_map cls) val =
          (case pydict_get (enum_value_map c) val of Some m \<Rightarrow> Some m
           | None \<Rightarrow> map_option (\<lambda>kv. \<lparr>ev_name = fst kv, ev_value = snd kv\<rparr>) (find (declares val) body))"
          by simp
        show ?thesis
        proof (cases "py_eq val0 val")
          case True
          have g: "pydict_get (enum_value_map c) val = Some nv"
            using pydict_get_cong [OF True, of "enum_value_map c"] Some by simp
          show ?thesis using ih unfolding g by simp
        next
          case False
          then have f: "find (declares val) (p # body) = find (declares val) body"
            using p by (simp add: declares_def)
          show ?thesis unfolding f by (rule ih)
        qed
      next
        case None
        let ?m = "\<lparr>ev_name = key, ev_value = val0\<rparr>"
        let ?c = "c\<lparr>enum_value_map := pydict_set (enum_value_map c) val0 ?m,
                     enum_member_names := enum_member_names c @ [key],
                     enum_member_map := dict_set (enum_member_map c) key ?m\<rparr>"
        from Cons.prems p key public None have "enum_members body ?c = Inr cls"
          by simp
        from Cons.IH [OF this] have ih: "pydict_get (enum_value_map cls) val =
          (case pydict_get (pydict_set (enum_value_map c) val0 ?m) val of Some m \<Rightarrow> Some m
           | None \<Rightarrow> map_option (\<lambda>kv. \<lparr>ev_name = fst kv, ev_value = snd kv\<rparr>) (find (declares val) body))"
          by simp
        show ?thesis
        proof (cases "py_eq val0 val")
          case True
          have g: "pydict_get (enum_value_map c) val = None"
            using pydict_get_cong [OF True, of "enum_value_map c"] None by simp
          have f: "find (declares val) (p # body) = Some p"
            using True p key public by (simp add: declares_def)
          have h: "pydict_get (pydict_set (enum_value_map c) val0 ?m) val = Some ?m"
            using None True by (simp add: pydict_get_set_new)
          show ?thesis using ih unfolding f g h by (simp add: p)
        next
          case False
          then have f: "find (declares val) (p # body) = find (declares val) body"
            using p by (simp add: declares_def)
          have h: "pydict_get (pydict_set (enum_value_map c) val0 ?m) val =
              pydict_get (enum_value_map c) val"
            using None False by (simp add: pydict_get_set_new)
          show ?thesis using ih unfolding f h .
        qed
      qed
    qed
  qed
qed

lemma enum_members_member_map_other:
  "enum_members body c = Inr cls \<Longrightarrow> k \<notin> fst ` set body \<Longrightarrow>
   dict_get (enum_member_map cls) k = dict_get (enum_member_map c) k"
proof (induction body arbitrary: c)
  case Nil
  then show ?case by simp
next
  case (Cons p body)
  obtain key val0 where p: "p = (key, val0)" by (cases p)
  from Cons.prems p have ne: "key \<noteq> k" and nin: "k \<notin> fst ` set body" by auto
  show ?case
  proof (cases key)
    case Nil
    with Cons.prems p show ?thesis by simp
  next
    case (Cons k0 ks)
    with Cons.prems(1) p Cons.IH nin ne show ?thesis
      by (auto simp add: dict_get_set_other split: if_splits option.splits)
  qed
qed


lemma enum_members_member_map_first:
  "enum_members body c = Inr cls \<Longrightarrow> distinct (map fst body) \<Longrightarrow>
   pydict_get (enum_value_map c) val = None \<Longrightarrow> find (declares val) body = Some kv \<Longrightarrow>
   dict_get (enum_member_map cls) (fst kv) = Some \<lparr>ev_name = fst kv, ev_value = snd kv\<rparr>"
proof (induction body arbitrary: c)
  case Nil
  then show ?case by simp
next
  case (Cons p body)
  obtain key val0 where p: "p = (key, val0)" by (cases p)
  from Cons.prems(2) p have d: "distinct (map fst body)" and nin: "key \<notin> fst ` set body"
    by auto
  show ?case
  proof (cases key)
    case Nil
    with Cons.prems p show ?thesis by simp
  next
    case (Cons k0 ks)
    note key = Cons
    show ?thesis
    proof (cases "declares val p")
      case True
      then have pub: "k0 \<noteq> CHR ''_''" and eq: "py_eq val0 val"
        using p key by (auto simp add: declares_def)
      have kv: "kv = p" using Cons.prems(4) True by simp
      have none: "pydict_get (enum_value_map c) val0 = None"
        using pydict_get_cong [OF eq, of "enum_value_map c"] Cons.prems(3) by simp
      let ?m = "\<lparr>ev_name = key, ev_value = val0\<rparr>"
      let ?c = "c\<lparr>enum_value_map := pydict_set (enum_value_map c) val0 ?m,
                   enum_member_names := enum_member_names c @ [key],
                   enum_member_map := dict_set (enum_member_map c) key ?m\<rparr>"
      from Cons.prems(1) p key pub none have "enum_members body ?c = Inr cls"
        by simp
      from enum_members_member_map_other [OF this nin]
      have "dict_get (enum_member_map cls) key = Some ?m"
        by (simp add: dict_get_set_same)
      with kv p show ?thesis by simp
    next
      case False
      then have f: "find (declares val) body = Some kv"
        using Cons.prems(4) by simp
      show ?thesis
      proof (cases "k0 = CHR ''_''")
        case True
        with Cons.prems(1) p key have "enum_members body c = Inr cls" by simp
        from Cons.IH [OF this d Cons.prems(3) f] show ?thesis .
      next
        case pub: False
        show ?thesis
        proof (cases "pydict_get (enum_value_map c) val0")
          case (Some nv)
          let ?c = "c\<lparr>enum_member_map := dict_set (enum_member_map c) key nv\<rparr>"
          from Cons.prems(1) p key pub Some have e: "enum_members body ?c = Inr cls"
            by simp
          have "pydict_get (enum_value_map ?c) val = None"
            using Cons.prems(3) by simp
          from Cons.IH [OF e d this f] show ?thesis .
        next
          case None
          let ?m = "\<lparr>ev_name = key, ev_value = val0\<rparr>"
          let ?c = "c\<lparr>enum_value_map := pydict_set (enum_value_map c) val0 ?m,
                       enum_member_names := enum_member_names c @ [key],
                       enum_member_map := dict_set (enum_member_map c) key ?m\<rparr>"
          from Cons.prems(1) p key pub None have e: "enum_members body ?c = Inr cls"
            by simp
          have neq: "\<not> py_eq val0 val"
            using False p key pub by (simp add: declares_def)
          have "pydict_get (enum_value_map ?c) val = None"
            using Cons.prems(3) None neq by (simp add: pydict_get_set_new)
          from Cons.IH [OF e d this f] show ?thesis .
        qed
      qed
    qed
  qed
qed

lemma find_declares_Some:
  "find (declares val) body = Some kv \<Longrightarrow> kv \<in> set body \<and> declares val kv"
  by (induction body) (auto split: if_splits)

lemma find_declares_None:
  "(find (declares val) body = None) = (\<forall>kv \<in> set body. \<not> declares val kv)"
  by (auto simp add: find_None_iff)

lemma try_enum_find:
  assumes "EnumMeta_new body = Inr cls"
  shows "try_enum cls val =
    (case find (declares val) body of
       Some kv \<Rightarrow> \<lparr>ev_name = fst kv, ev_value = snd kv\<rparr>
     | None \<Rightarrow> \<lparr>ev_name = ''unknown_'' @ py_str val, ev_value = val\<rparr>)"
proof -
  have "pydict_get (enum_value_map cls) val =
      map_option (\<lambda>kv. \<lparr>ev_name = fst kv, ev_value = snd kv\<rparr>) (find (declares val) body)"
    using enum_members_value_map [OF assms [unfolded EnumMeta_new_def], of val] by simp
  then show ?thesis
    by (cases "find (declares val) body")
      (simp_all add: try_enum_def value_map_index_def create_unknown_value_def)
qed

text \<open>
  C9. For every enum class that \<open>EnumMeta\<close> builds from a class body, and every value,
  \<open>try_enum\<close> returns a value and raises nothing: the lookup's \<open>KeyError\<close> is caught. When
  an entry of the body whose key does not start with an underscore has a value equal to
  the looked-up one, the result is the member of the first such entry (the canonical
  member: later keys with an equal value are aliases of it), the one the value map holds,
  with a value equal to the looked-up one, and the one the member map has under the
  member's name when the keys of the body are distinct. Otherwise the result is the value
  named \<open>unknown_\<close> followed by \<open>str(val)\<close>, and it carries \<open>val\<close> itself.
\<close>

theorem try_enum_total:
  assumes "EnumMeta_new body = Inr cls"
  shows "try_enum cls val =
      (case find (declares val) body of
         Some kv \<Rightarrow> \<lparr>ev_name = fst kv, ev_value = snd kv\<rparr>
       | None \<Rightarrow> \<lparr>ev_name = ''unknown_'' @ py_str val, ev_value = val\<rparr>) \<and>
    ((\<forall>kv \<in> set body. \<not> declares val kv) \<longrightarrow>
       try_enum cls val = \<lparr>ev_name = ''unknown_'' @ py_str val, ev_value = val\<rparr>) \<and>
    ((\<exists>kv \<in> set body. declares val kv) \<longrightarrow>
       value_map_index cls val = Inr (try_enum cls val) \<and>
       py_eq (ev_value (try_enum cls val)) val \<and>
       (ev_name (try_enum cls val), ev_value (try_enum cls val)) \<in> set body \<and>
       (distinct (map fst body) \<longrightarrow>
          dict_get (enum_member_map cls) (ev_name (try_enum cls val)) = Some (try_enum cls val)))"
proof (intro conjI impI)
  show "try_enum cls val =
      (case find (declares val) body of
         Some kv \<Rightarrow> \<lparr>ev_name = fst kv, ev_value = snd kv\<rparr>
       | None \<Rightarrow> \<lparr>ev_name = ''unknown_'' @ py_str val, ev_value = val\<rparr>)"
    by (rule try_enum_find [OF assms])
next
  assume "\<forall>kv \<in> set body. \<not> declares val kv"
  then have "find (declares val) body = None" by (simp add: find_declares_None)
  with try_enum_find [OF assms, of val]
  show "try_enum cls val = \<lparr>ev_name = ''unknown_'' @ py_str val, ev_value = val\<rparr>" by simp
next
  assume ex: "\<exists>kv \<in> set body. declares val kv"
  then obtain kv where f: "find (declares val) body = Some kv"
    using find_declares_None [of val body] by (cases "find (declares val) body") auto
  have t: "try_enum cls val = \<lparr>ev_name = fst kv, ev_value = snd kv\<rparr>"
    using try_enum_find [OF assms, of val] f by simp
  have vm: "pydict_get (enum_value_map cls) val = Some \<lparr>ev_name = fst kv, ev_value = snd kv\<rparr>"
    using enum_members_value_map [OF assms [unfolded EnumMeta_new_def], of val] f by simp
  show "value_map_index cls val = Inr (try_enum cls val)"
    using vm t by (simp add: value_map_index_def)
  show "py_eq (ev_value (try_enum cls val)) val"
    using find_declares_Some [OF f] t by (simp add: declares_def)
  show "(ev_name (try_enum cls val), ev_value (try_enum cls val)) \<in> set body"
    using find_declares_Some [OF f] t by simp
  assume d: "distinct (map fst body)"
  show "dict_get (enum_member_map cls) (ev_name (try_enum cls val)) = Some (try_enum cls val)"
    using enum_members_member_map_first [OF assms [unfolded EnumMeta_new_def] d _ f] t by simp
qed

lemma RPCApplicationState_built:
  "EnumMeta_new RPCApplicationState_body = Inr RPCApplicationState"
  by (simp add: RPCApplicationState_def EnumMeta_new_def RPCApplicationState_body_def py_eq_def)

lemma ChannelType_built: "EnumMeta_new ChannelType_body = Inr ChannelType"
  by (simp add: ChannelType_def EnumMeta_new_def ChannelType_body_def py_eq_def)

theorem try_enum_total_witness:
  "EnumMeta_new RPCApplicationState_body = Inr RPCApplicationState \<and>
   try_enum RPCApplicationState (PInt 0) = \<lparr>ev_name = ''disabled'', ev_value = PInt 0\<rparr> \<and>
   try_enum RPCApplicationState (PBool True) = \<lparr>ev_name = ''unsubmitted'', ev_value = PInt 1\<rparr> \<and>
   try_enum RPCApplicationState (PInt 9) = \<lparr>ev_name = ''unknown_9'', ev_value = PInt 9\<rparr> \<and>
   try_enum RPCApplicationState (PStr ''disabled'') =
     \<lparr>ev_name = ''unknown_disabled'', ev_value = PStr ''disabled''\<rparr>"
  using RPCApplicationState_built
    try_enum_total [OF RPCApplicationState_built, of "PInt 0", THEN conjunct1]
    try_enum_total [OF RPCApplicationState_built, of "PBool True", THEN conjunct1]
    try_enum_total [OF RPCApplicationState_built, of "PInt 9", THEN conjunct1]
    try_enum_total [OF RPCApplicationState_built, of "PStr ''disabled''", THEN conjunct1]
  by (simp add: RPCApplicationState_body_def declares_def py_eq_def str_int_def)

end
